theory Spec2Isabelle
  imports Complex_Main
begin

section \<open>The host: the Web Audio primitives that Voice.js calls\<close>

text \<open>
  The repository is the single class \<^verbatim>\<open>Voice\<close> of \<^verbatim>\<open>src/Voice.js\<close>. Every statement of
  it is a call into the browser's audio graph: node constructors, \<^verbatim>\<open>connect\<close> and
  \<^verbatim>\<open>disconnect\<close>, the automation methods of an \<^verbatim>\<open>AudioParam\<close>, and \<^verbatim>\<open>start\<close> and
  \<^verbatim>\<open>stop\<close> of an oscillator. The host is modelled as an explicit store of nodes, each
  holding its parameters, its outgoing connections and its start and stop times.

  JavaScript numbers are modelled as reals: rounding of IEEE doubles, and the
  single-precision storage of parameter values, are outside the model.
\<close>

type_synonym node_id = nat

datatype error = TypeError | InvalidStateError

text \<open>A field of the Voice object that holds a node: not yet assigned, nulled, or a node.\<close>

datatype jsref = Undefined | Null | Ref node_id

text \<open>A value of an options dictionary handed to a node constructor.\<close>

datatype jsval = Num real | Str string

text \<open>An automation event of a parameter: target value, then time.\<close>

datatype event = SetValue real real | LinearRamp real real

fun ev_value :: "event \<Rightarrow> real" where
  "ev_value (SetValue v t) = v"
| "ev_value (LinearRamp v t) = v"

fun ev_time :: "event \<Rightarrow> real" where
  "ev_time (SetValue v t) = t"
| "ev_time (LinearRamp v t) = t"

fun same_type :: "event \<Rightarrow> event \<Rightarrow> bool" where
  "same_type (SetValue _ _) (SetValue _ _) = True"
| "same_type (LinearRamp _ _) (LinearRamp _ _) = True"
| "same_type _ _ = False"

text \<open>
  An \<^verbatim>\<open>AudioParam\<close>: \<open>pvalue\<close> is what the \<^verbatim>\<open>value\<close> attribute reads (the value of the
  last rendering), \<open>events\<close> is the automation timeline, kept in time order.
\<close>

record audio_param =
  pvalue :: real
  events :: "event list"

text \<open>
  The timeline keeps events in time order. A new event replaces an event of the same
  type at the same time, and goes after events of another type at the same time.
\<close>

fun insert_event :: "event \<Rightarrow> event list \<Rightarrow> event list" where
  "insert_event e [] = [e]"
| "insert_event e (x # xs) =
     (if ev_time x < ev_time e then x # insert_event e xs
      else if ev_time x = ev_time e then
        (if same_type e x then e # xs else x # insert_event e xs)
      else e # x # xs)"

definition setValueAtTime :: "real \<Rightarrow> real \<Rightarrow> audio_param \<Rightarrow> audio_param" where
  "setValueAtTime v t p = p\<lparr>events := insert_event (SetValue v t) (events p)\<rparr>"

text \<open>
  A ramp with no event before it starts from the current value at the time of the call,
  as if \<^verbatim>\<open>setValueAtTime(value, currentTime)\<close> had been called first.
\<close>

definition linearRampToValueAtTime :: "real \<Rightarrow> real \<Rightarrow> real \<Rightarrow> audio_param \<Rightarrow> audio_param" where
  "linearRampToValueAtTime v t now p =
     (let es = (if list_all (\<lambda>e. t < ev_time e) (events p)
                then insert_event (SetValue (pvalue p) now) (events p)
                else events p)
      in p\<lparr>events := insert_event (LinearRamp v t) es\<rparr>)"

text \<open>\<^verbatim>\<open>cancelScheduledValues(t)\<close> removes every event whose time is \<open>t\<close> or later.\<close>

definition cancelScheduledValues :: "real \<Rightarrow> audio_param \<Rightarrow> audio_param" where
  "cancelScheduledValues t p = p\<lparr>events := filter (\<lambda>e. ev_time e < t) (events p)\<rparr>"

text \<open>
  Assigning the \<^verbatim>\<open>value\<close> attribute sets the current value and schedules it at the
  current time.
\<close>

definition set_value :: "real \<Rightarrow> real \<Rightarrow> audio_param \<Rightarrow> audio_param" where
  "set_value v now p = setValueAtTime v now (p\<lparr>pvalue := v\<rparr>)"

text \<open>
  The value the timeline gives at time \<open>t\<close>. \<open>follow T0 V0 es t\<close> walks the events that
  come after an event at time \<open>T0\<close> with value \<open>V0\<close>: ahead of a \<open>SetValue\<close> the value
  holds, ahead of a \<open>LinearRamp\<close> it is interpolated between the two events, and after
  the last event it holds.
\<close>

fun follow :: "real \<Rightarrow> real \<Rightarrow> event list \<Rightarrow> real \<Rightarrow> real" where
  "follow T0 V0 [] t = V0"
| "follow T0 V0 (SetValue v T # es) t = (if t < T then V0 else follow T v es t)"
| "follow T0 V0 (LinearRamp v T # es) t =
     (if t < T then V0 + (v - V0) * ((t - T0) / (T - T0)) else follow T v es t)"

definition param_at :: "audio_param \<Rightarrow> real \<Rightarrow> real" where
  "param_at p t =
     (case events p of
        [] \<Rightarrow> pvalue p
      | e # es \<Rightarrow> if t < ev_time e then pvalue p else follow (ev_time e) (ev_value e) es t)"

text \<open>A connection leaves a node for the input of a node or for a parameter of a node.\<close>

datatype dest = ToNode node_id | ToParam node_id string

datatype node_kind = Oscillator | Gain | BiquadFilter | Destination

text \<open>The only event handler the program installs: \<^verbatim>\<open>this.dispose.bind(this)\<close>.\<close>

datatype handler = VoiceDispose

record audio_node =
  kind :: node_kind
  ntype :: string
  params :: "string \<Rightarrow> audio_param option"
  outs :: "dest list"
  started :: "real option"
  stopped :: "real option"
  onended :: "handler option"

record audio_ctx =
  currentTime :: real
  nodes :: "node_id \<Rightarrow> audio_node option"
  next_id :: nat

definition mk_param :: "real \<Rightarrow> audio_param" where
  "mk_param v = \<lparr>pvalue = v, events = []\<rparr>"

text \<open>
  A constructor reads the members of its options dictionary by name; a member it does
  not know is ignored, a member that is absent takes its default. Names are
  case-sensitive.
\<close>

definition opt_num :: "(string \<times> jsval) list \<Rightarrow> string \<Rightarrow> real \<Rightarrow> real" where
  "opt_num opts k d = (case map_of opts k of Some (Num x) \<Rightarrow> x | _ \<Rightarrow> d)"

definition opt_str :: "(string \<times> jsval) list \<Rightarrow> string \<Rightarrow> string \<Rightarrow> string" where
  "opt_str opts k d = (case map_of opts k of Some (Str s) \<Rightarrow> s | _ \<Rightarrow> d)"

text \<open>\<^verbatim>\<open>OscillatorNode\<close>: type sine, frequency 440, detune 0 unless set.\<close>

definition OscillatorNode :: "(string \<times> jsval) list \<Rightarrow> audio_node" where
  "OscillatorNode opts =
     \<lparr>kind = Oscillator, ntype = opt_str opts ''type'' ''sine'',
      params = [''frequency'' \<mapsto> mk_param (opt_num opts ''frequency'' 440),
                ''detune'' \<mapsto> mk_param (opt_num opts ''detune'' 0)],
      outs = [], started = None, stopped = None, onended = None\<rparr>"

text \<open>\<^verbatim>\<open>GainNode\<close>: gain 1 unless set.\<close>

definition GainNode :: "(string \<times> jsval) list \<Rightarrow> audio_node" where
  "GainNode opts =
     \<lparr>kind = Gain, ntype = [],
      params = [''gain'' \<mapsto> mk_param (opt_num opts ''gain'' 1)],
      outs = [], started = None, stopped = None, onended = None\<rparr>"

text \<open>
  \<^verbatim>\<open>BiquadFilterNode\<close>: the members of its options are \<^verbatim>\<open>type\<close> (lowpass),
  \<^verbatim>\<open>Q\<close> (1), \<^verbatim>\<open>detune\<close> (0), \<^verbatim>\<open>frequency\<close> (350) and \<^verbatim>\<open>gain\<close> (0).
\<close>

definition BiquadFilterNode :: "(string \<times> jsval) list \<Rightarrow> audio_node" where
  "BiquadFilterNode opts =
     \<lparr>kind = BiquadFilter, ntype = opt_str opts ''type'' ''lowpass'',
      params = [''frequency'' \<mapsto> mk_param (opt_num opts ''frequency'' 350),
                ''detune'' \<mapsto> mk_param (opt_num opts ''detune'' 0),
                ''Q'' \<mapsto> mk_param (opt_num opts ''Q'' 1),
                ''gain'' \<mapsto> mk_param (opt_num opts ''gain'' 0)],
      outs = [], started = None, stopped = None, onended = None\<rparr>"

text \<open>A connection that already exists is not added a second time.\<close>

definition add_out :: "dest \<Rightarrow> audio_node \<Rightarrow> audio_node" where
  "add_out d nd = nd\<lparr>outs := (if d \<in> set (outs nd) then outs nd else outs nd @ [d])\<rparr>"

text \<open>
  Time passing on the host: the clock shows \<open>t\<close>, and the last rendering the host has
  finished was for the time \<open>r\<close>, which is \<open>t\<close> or earlier. A parameter's \<^verbatim>\<open>value\<close> reads
  what its timeline gave at \<open>r\<close>, not at \<open>t\<close>: during a ramp the reading lags behind
  the timeline, and with \<open>r\<close> before the first event it is still the value the parameter
  had before. How far \<open>r\<close> is behind \<open>t\<close> is the host's business.
\<close>

definition advance :: "real \<Rightarrow> real \<Rightarrow> audio_ctx \<Rightarrow> audio_ctx" where
  "advance r t c =
     c\<lparr>currentTime := t,
       nodes := (\<lambda>i. map_option
                  (\<lambda>nd. nd\<lparr>params := (\<lambda>k. map_option (\<lambda>p. p\<lparr>pvalue := param_at p r\<rparr>) (params nd k))\<rparr>)
                  (nodes c i))\<rparr>"

text \<open>The number of nodes connected to the input of node \<open>d\<close>.\<close>

definition connects_to :: "audio_ctx \<Rightarrow> dest \<Rightarrow> node_id \<Rightarrow> bool" where
  "connects_to c d m = (case nodes c m of None \<Rightarrow> False | Some nd \<Rightarrow> d \<in> set (outs nd))"

definition incoming_count :: "audio_ctx \<Rightarrow> node_id \<Rightarrow> nat" where
  "incoming_count c d = length (filter (connects_to c (ToNode d)) [0..<next_id c])"

section \<open>The Voice object\<close>

text \<open>
  The fields of \<^verbatim>\<open>this\<close>. The program has one audio context, the host state of the
  world below, so \<^verbatim>\<open>this.context\<close> is not a field of the record; \<^verbatim>\<open>this.output\<close> is the field
  \<open>output_node\<close>, the id of the sink.
\<close>

record voice =
  frequency :: real
  maxAmp :: real
  output_node :: node_id
  attack :: real
  decay :: real
  sustain :: real
  release :: real
  osc :: jsref
  osc2 :: jsref
  osc2scale :: jsref
  osc3 :: jsref
  osc3scale :: jsref
  ringModGain :: jsref
  ringModModulator :: jsref
  ampEnv :: jsref
  lpFilter :: jsref

record world =
  audio :: audio_ctx
  self :: voice

text \<open>
  A statement either completes with a new world or throws and changes nothing. A
  method body runs its statements in order and stops at the first throw, keeping what
  the statements before it did.
\<close>

type_synonym stmt = "world \<Rightarrow> error + world"

fun exec :: "stmt list \<Rightarrow> world \<Rightarrow> error option \<times> world" where
  "exec [] w = (None, w)"
| "exec (s # ss) w = (case s w of Inl e \<Rightarrow> (Some e, w) | Inr w' \<Rightarrow> exec ss w')"

text \<open>\<^verbatim>\<open>this.fld = new Node(this.context, opts)\<close>\<close>

definition create :: "audio_node \<Rightarrow> (jsref \<Rightarrow> voice \<Rightarrow> voice) \<Rightarrow> stmt" where
  "create nd setf w =
     (let c = audio w; n = next_id c
      in Inr (w\<lparr>audio := c\<lparr>nodes := (nodes c)(n \<mapsto> nd), next_id := Suc n\<rparr>,
                self := setf (Ref n) (self w)\<rparr>))"

text \<open>
  \<^verbatim>\<open>this.fld.method(...)\<close>: reading a property of \<^verbatim>\<open>undefined\<close> or \<^verbatim>\<open>null\<close> throws a
  TypeError.
\<close>

definition on_node :: "(voice \<Rightarrow> jsref) \<Rightarrow> (audio_node \<Rightarrow> error + audio_node) \<Rightarrow> stmt" where
  "on_node fld f w =
     (case fld (self w) of
        Ref n \<Rightarrow>
          (case nodes (audio w) n of
             None \<Rightarrow> Inl TypeError
           | Some nd \<Rightarrow>
               (case f nd of
                  Inl e \<Rightarrow> Inl e
                | Inr nd' \<Rightarrow> Inr (w\<lparr>audio := (audio w)\<lparr>nodes := (nodes (audio w))(n \<mapsto> nd')\<rparr>\<rparr>)))
      | _ \<Rightarrow> Inl TypeError)"

text \<open>\<^verbatim>\<open>node.k.method(...)\<close> on the parameter \<open>k\<close> of a node; a node without it throws.\<close>

definition on_param :: "string \<Rightarrow> (audio_param \<Rightarrow> audio_param) \<Rightarrow> audio_node \<Rightarrow> error + audio_node" where
  "on_param k f nd =
     (case params nd k of
        None \<Rightarrow> Inl TypeError
      | Some p \<Rightarrow> Inr (nd\<lparr>params := (params nd)(k \<mapsto> f p)\<rparr>))"

text \<open>\<^verbatim>\<open>this.src.connect(dst)\<close> to the input of a node.\<close>

definition connect :: "(voice \<Rightarrow> jsref) \<Rightarrow> (voice \<Rightarrow> jsref) \<Rightarrow> stmt" where
  "connect src dst w =
     (case src (self w) of
        Ref s \<Rightarrow>
          (case dst (self w) of
             Ref d \<Rightarrow> on_node src (\<lambda>nd. Inr (add_out (ToNode d) nd)) w
           | _ \<Rightarrow> Inl TypeError)
      | _ \<Rightarrow> Inl TypeError)"

text \<open>\<^verbatim>\<open>this.src.connect(this.dst.k)\<close> to a parameter of a node.\<close>

definition connect_param :: "(voice \<Rightarrow> jsref) \<Rightarrow> (voice \<Rightarrow> jsref) \<Rightarrow> string \<Rightarrow> stmt" where
  "connect_param src dst k w =
     (case src (self w) of
        Ref s \<Rightarrow>
          (case dst (self w) of
             Ref d \<Rightarrow>
               (case nodes (audio w) d of
                  None \<Rightarrow> Inl TypeError
                | Some dn \<Rightarrow>
                    (case params dn k of
                       None \<Rightarrow> Inl TypeError
                     | Some _ \<Rightarrow> on_node src (\<lambda>nd. Inr (add_out (ToParam d k) nd)) w))
           | _ \<Rightarrow> Inl TypeError)
      | _ \<Rightarrow> Inl TypeError)"

text \<open>\<^verbatim>\<open>this.fld.disconnect()\<close> removes every outgoing connection of the node.\<close>

definition disconnect :: "(voice \<Rightarrow> jsref) \<Rightarrow> stmt" where
  "disconnect fld = on_node fld (\<lambda>nd. Inr (nd\<lparr>outs := []\<rparr>))"

text \<open>
  \<^verbatim>\<open>this.fld.start(when)\<close>: a second start throws; the oscillator plays from \<open>when\<close> or
  from the time of the call, whichever is later.
\<close>

definition osc_start :: "(voice \<Rightarrow> jsref) \<Rightarrow> real \<Rightarrow> real \<Rightarrow> stmt" where
  "osc_start fld when now =
     on_node fld (\<lambda>nd.
       if kind nd \<noteq> Oscillator then Inl TypeError
       else (case started nd of
               Some _ \<Rightarrow> Inl InvalidStateError
             | None \<Rightarrow> Inr (nd\<lparr>started := Some (max when now)\<rparr>)))"

text \<open>\<^verbatim>\<open>this.fld.stop(when)\<close>: throws on an oscillator that was never started.\<close>

definition osc_stop :: "(voice \<Rightarrow> jsref) \<Rightarrow> real \<Rightarrow> stmt" where
  "osc_stop fld when =
     on_node fld (\<lambda>nd.
       if kind nd \<noteq> Oscillator then Inl TypeError
       else (case started nd of
               None \<Rightarrow> Inl InvalidStateError
             | Some _ \<Rightarrow> Inr (nd\<lparr>stopped := Some when\<rparr>)))"

text \<open>\<^verbatim>\<open>this.fld = null\<close>\<close>

definition assign :: "(voice \<Rightarrow> voice) \<Rightarrow> stmt" where
  "assign f w = Inr (w\<lparr>self := f (self w)\<rparr>)"

subsection \<open>constructor\<close>

definition Voice :: "audio_ctx \<Rightarrow> real \<Rightarrow> real \<Rightarrow> node_id \<Rightarrow> error option \<times> world" where
  "Voice ctx freq amp out =
     (None,
      \<lparr>audio = ctx,
       self = \<lparr>frequency = freq, maxAmp = amp, output_node = out,
               attack = 0.02, decay = 0.01, sustain = 0.5, release = 0.5,
               osc = Undefined, osc2 = Undefined, osc2scale = Undefined,
               osc3 = Undefined, osc3scale = Undefined, ringModGain = Undefined,
               ringModModulator = Undefined, ampEnv = Undefined, lpFilter = Undefined\<rparr>\<rparr>)"

subsection \<open>start\<close>

definition start :: "world \<Rightarrow> error option \<times> world" where
  "start w =
     (let now = currentTime (audio w) in
      exec
       [create (OscillatorNode []) (\<lambda>r v. v\<lparr>osc := r\<rparr>),
        (\<lambda>w. on_node osc (on_param ''frequency'' (setValueAtTime (frequency (self w)) now)) w),
        on_node osc (\<lambda>nd. Inr (nd\<lparr>onended := Some VoiceDispose\<rparr>)),

        create (OscillatorNode []) (\<lambda>r v. v\<lparr>osc2 := r\<rparr>),
        on_node osc2 (\<lambda>nd. Inr (nd\<lparr>ntype := ''sawtooth''\<rparr>)),
        (\<lambda>w. on_node osc2
                (on_param ''frequency'' (setValueAtTime (frequency (self w) * 2) now)) w),
        create (GainNode [(''gain'', Num 0.5)]) (\<lambda>r v. v\<lparr>osc2scale := r\<rparr>),

        create (OscillatorNode []) (\<lambda>r v. v\<lparr>osc3 := r\<rparr>),
        on_node osc3 (\<lambda>nd. Inr (nd\<lparr>ntype := ''triangle''\<rparr>)),
        (\<lambda>w. on_node osc3
                (on_param ''frequency'' (setValueAtTime (frequency (self w) / 2) now)) w),
        create (GainNode [(''gain'', Num 1.0)]) (\<lambda>r v. v\<lparr>osc3scale := r\<rparr>),

        create (GainNode [(''gain'', Num 0)]) (\<lambda>r v. v\<lparr>ringModGain := r\<rparr>),

        create (OscillatorNode []) (\<lambda>r v. v\<lparr>ringModModulator := r\<rparr>),
        (\<lambda>w. on_node ringModModulator
                (on_param ''frequency'' (set_value (frequency (self w) / 128) now)) w),

        create (GainNode [(''gain'', Num 0)]) (\<lambda>r v. v\<lparr>ampEnv := r\<rparr>),
        on_node ampEnv (on_param ''gain'' (setValueAtTime 0 now)),

        (\<lambda>w. create (BiquadFilterNode
                       [(''type'', Str ''lowpass''),
                        (''frequency'', Num (frequency (self w) + 2000)),
                        (''q'', Num 2)])
                (\<lambda>r v. v\<lparr>lpFilter := r\<rparr>) w),

        connect_param ringModModulator ringModGain ''gain'',

        connect osc ringModGain,
        connect osc2 osc2scale,
        connect osc2scale ringModGain,
        connect osc3 osc3scale,
        connect osc3scale ringModGain,

        connect ringModGain ampEnv,
        connect ampEnv lpFilter,
        connect lpFilter (\<lambda>v. Ref (output_node v)),

        osc_start ringModModulator 0 now,
        osc_start osc 0 now,
        osc_start osc2 0 now,
        osc_start osc3 0 now,

        (\<lambda>w. on_node ampEnv
                (on_param ''gain''
                  (linearRampToValueAtTime (maxAmp (self w)) (now + attack (self w)) now)) w),
        (\<lambda>w. on_node ampEnv
                (on_param ''gain''
                  (linearRampToValueAtTime (sustain (self w) * maxAmp (self w))
                     (now + attack (self w) + decay (self w)) now)) w)]
       w)"

subsection \<open>stop\<close>

definition stop :: "world \<Rightarrow> error option \<times> world" where
  "stop w =
     (let now = currentTime (audio w);
          stopTime = now + release (self w) + 0.01 in
      exec
       [on_node ampEnv (on_param ''gain'' (cancelScheduledValues now)),
        on_node ampEnv (on_param ''gain'' (\<lambda>p. setValueAtTime (pvalue p) now p)),

        (\<lambda>w. on_node ampEnv
                (on_param ''gain''
                  (linearRampToValueAtTime 0 (now + release (self w)) now)) w),

        osc_stop osc stopTime,
        osc_stop osc2 stopTime,
        osc_stop osc3 stopTime,
        osc_stop ringModModulator stopTime]
       w)"

subsection \<open>dispose\<close>

definition dispose :: "world \<Rightarrow> error option \<times> world" where
  "dispose =
     exec
      [disconnect osc,
       disconnect osc2,
       disconnect osc3,
       disconnect osc2scale,
       disconnect osc3scale,
       disconnect ringModGain,
       disconnect ringModModulator,
       disconnect ampEnv,

       assign (\<lambda>v. v\<lparr>osc := Null\<rparr>),
       assign (\<lambda>v. v\<lparr>osc2 := Null\<rparr>),
       assign (\<lambda>v. v\<lparr>osc3 := Null\<rparr>),
       assign (\<lambda>v. v\<lparr>osc2scale := Null\<rparr>),
       assign (\<lambda>v. v\<lparr>osc3scale := Null\<rparr>),
       assign (\<lambda>v. v\<lparr>ringModGain := Null\<rparr>),
       assign (\<lambda>v. v\<lparr>ringModModulator := Null\<rparr>),
       assign (\<lambda>v. v\<lparr>ampEnv := Null\<rparr>)]"

text \<open>
  The host delivers the \<^verbatim>\<open>ended\<close> event of node \<open>n\<close> once its stop time has passed,
  and runs the handler installed on it.
\<close>

definition fire_ended :: "node_id \<Rightarrow> world \<Rightarrow> error option \<times> world" where
  "fire_ended n w =
     (case nodes (audio w) n of
        None \<Rightarrow> (None, w)
      | Some nd \<Rightarrow>
          (case stopped nd of
             None \<Rightarrow> (None, w)
           | Some s \<Rightarrow>
               if s \<le> currentTime (audio w) then
                 (case onended nd of None \<Rightarrow> (None, w) | Some VoiceDispose \<Rightarrow> dispose w)
               else (None, w)))"

section \<open>Observing a world\<close>

text \<open>The state the voice is in after the constructor and \<^verbatim>\<open>start()\<close>.\<close>

abbreviation after_start :: "audio_ctx \<Rightarrow> real \<Rightarrow> real \<Rightarrow> node_id \<Rightarrow> world" where
  "after_start c f m out \<equiv> snd (start (snd (Voice c f m out)))"

text \<open>
  The world when the clock shows \<open>t\<close> and the host has rendered up to \<open>r\<close>; the voice
  object is untouched.
\<close>

definition at_time :: "real \<Rightarrow> real \<Rightarrow> world \<Rightarrow> world" where
  "at_time r t w = w\<lparr>audio := advance r t (audio w)\<rparr>"

text \<open>The node a field of the voice refers to, and its parts.\<close>

definition node_of :: "world \<Rightarrow> (voice \<Rightarrow> jsref) \<Rightarrow> audio_node option" where
  "node_of w fld = (case fld (self w) of Ref n \<Rightarrow> nodes (audio w) n | _ \<Rightarrow> None)"

definition outs_of :: "world \<Rightarrow> (voice \<Rightarrow> jsref) \<Rightarrow> dest list option" where
  "outs_of w fld = map_option outs (node_of w fld)"

definition stop_time_of :: "world \<Rightarrow> (voice \<Rightarrow> jsref) \<Rightarrow> real option" where
  "stop_time_of w fld = (case node_of w fld of None \<Rightarrow> None | Some nd \<Rightarrow> stopped nd)"

definition param_of :: "world \<Rightarrow> (voice \<Rightarrow> jsref) \<Rightarrow> string \<Rightarrow> audio_param option" where
  "param_of w fld k = (case node_of w fld of None \<Rightarrow> None | Some nd \<Rightarrow> params nd k)"

text \<open>What \<^verbatim>\<open>this.fld.k.value\<close> reads, the timeline of the parameter, and its value at \<open>t\<close>.\<close>

definition value_of :: "world \<Rightarrow> (voice \<Rightarrow> jsref) \<Rightarrow> string \<Rightarrow> real option" where
  "value_of w fld k = map_option pvalue (param_of w fld k)"

definition events_of :: "world \<Rightarrow> (voice \<Rightarrow> jsref) \<Rightarrow> string \<Rightarrow> event list option" where
  "events_of w fld k = map_option events (param_of w fld k)"

definition value_at :: "world \<Rightarrow> (voice \<Rightarrow> jsref) \<Rightarrow> string \<Rightarrow> real \<Rightarrow> real option" where
  "value_at w fld k t = map_option (\<lambda>p. param_at p t) (param_of w fld k)"

text \<open>A host with a destination, a bus into it and one playing source on the bus.\<close>

definition demo_ctx :: audio_ctx where
  "demo_ctx =
     \<lparr>currentTime = 0,
      nodes = [0 \<mapsto> \<lparr>kind = Destination, ntype = [], params = Map.empty, outs = [],
                       started = None, stopped = None, onended = None\<rparr>,
               1 \<mapsto> (GainNode [])\<lparr>outs := [ToNode 0]\<rparr>,
               2 \<mapsto> (OscillatorNode [])\<lparr>outs := [ToNode 1], started := Some 0\<rparr>],
      next_id = 3\<rparr>"





text \<open>
  No node of the host is connected to a node that does not exist yet.
\<close>

fun dest_id :: "dest \<Rightarrow> node_id" where
  "dest_id (ToNode n) = n"
| "dest_id (ToParam n k) = n"

definition wf_ctx :: "audio_ctx \<Rightarrow> bool" where
  "wf_ctx c =
     list_all
       (\<lambda>m. case nodes c m of
               None \<Rightarrow> True
             | Some nd \<Rightarrow> list_all (\<lambda>d. dest_id d < next_id c) (outs nd))
       [0..<next_id c]"

text \<open>
  The signal a node puts out at time \<open>t\<close>, in the idealised reading of the audio graph
  (real-valued signals in continuous time). An oscillator puts out its waveform \<open>wave\<close>
  while it plays. A gain node multiplies the sum of the signals connected to its input
  by its gain, which is the value of the parameter's timeline plus the sum of the signals
  connected to the parameter. A filter applies \<open>filt\<close> to the sum of its inputs, and a
  destination passes the sum on. \<open>render\<close> follows connections backwards for at most
  \<open>d\<close> nodes; \<open>wave\<close> and \<open>filt\<close> are parameters of the model.
\<close>

definition playing :: "audio_node \<Rightarrow> real \<Rightarrow> bool" where
  "playing nd t =
     (case started nd of
        None \<Rightarrow> False
      | Some s \<Rightarrow> s \<le> t \<and> (case stopped nd of None \<Rightarrow> True | Some e \<Rightarrow> t < e))"

definition inputs_sum :: "audio_ctx \<Rightarrow> dest \<Rightarrow> (node_id \<Rightarrow> real) \<Rightarrow> real" where
  "inputs_sum c d sig =
     sum_list (map (\<lambda>m. if connects_to c d m then sig m else 0) [0..<next_id c])"

primrec render ::
  "audio_ctx \<Rightarrow> (node_id \<Rightarrow> real \<Rightarrow> real) \<Rightarrow> (node_id \<Rightarrow> (real \<Rightarrow> real) \<Rightarrow> real \<Rightarrow> real) \<Rightarrow>
   nat \<Rightarrow> node_id \<Rightarrow> real \<Rightarrow> real" where
  "render c wave filt 0 n t = 0"
| "render c wave filt (Suc d) n t =
     (case nodes c n of
        None \<Rightarrow> 0
      | Some nd \<Rightarrow>
          (case kind nd of
             Oscillator \<Rightarrow> if playing nd t then wave n t else 0
           | Gain \<Rightarrow>
               (case params nd ''gain'' of
                  None \<Rightarrow> 0
                | Some p \<Rightarrow>
                    inputs_sum c (ToNode n) (\<lambda>m. render c wave filt d m t) *
                    (param_at p t + inputs_sum c (ToParam n ''gain'') (\<lambda>m. render c wave filt d m t)))
           | BiquadFilter \<Rightarrow>
               filt n (\<lambda>t'. inputs_sum c (ToNode n) (\<lambda>m. render c wave filt d m t')) t
           | Destination \<Rightarrow> inputs_sum c (ToNode n) (\<lambda>m. render c wave filt d m t)))"

definition signal_of ::
  "world \<Rightarrow> (node_id \<Rightarrow> real \<Rightarrow> real) \<Rightarrow> (node_id \<Rightarrow> (real \<Rightarrow> real) \<Rightarrow> real \<Rightarrow> real) \<Rightarrow>
   nat \<Rightarrow> (voice \<Rightarrow> jsref) \<Rightarrow> real \<Rightarrow> real" where
  "signal_of w wave filt d fld t =
     (case fld (self w) of Ref n \<Rightarrow> render (audio w) wave filt d n t | _ \<Rightarrow> 0)"

text \<open>
  The fields \<^verbatim>\<open>dispose()\<close> disconnects and nulls, in its order; whether a field refers
  to a node of the host; and the outgoing connections of the node behind a reference.
\<close>

definition disposed_fields :: "(voice \<Rightarrow> jsref) list" where
  "disposed_fields = [osc, osc2, osc3, osc2scale, osc3scale, ringModGain, ringModModulator, ampEnv]"

definition refers :: "world \<Rightarrow> (voice \<Rightarrow> jsref) \<Rightarrow> bool" where
  "refers w fld = (case fld (self w) of Ref n \<Rightarrow> nodes (audio w) n \<noteq> None | _ \<Rightarrow> False)"

definition holds_nodes :: "world \<Rightarrow> bool" where
  "holds_nodes w = list_all (refers w) disposed_fields"

definition ref_outs :: "audio_ctx \<Rightarrow> jsref \<Rightarrow> dest list option" where
  "ref_outs c r = (case r of Ref n \<Rightarrow> map_option outs (nodes c n) | _ \<Rightarrow> None)"

text \<open>The host after \<^verbatim>\<open>disconnect()\<close> on node \<open>n\<close>.\<close>

definition cut :: "node_id \<Rightarrow> audio_ctx \<Rightarrow> audio_ctx" where
  "cut n c = c\<lparr>nodes := (nodes c)(n := map_option (\<lambda>nd. nd\<lparr>outs := []\<rparr>) (nodes c n))\<rparr>"

text \<open>
  One life of a voice on the demo host: constructed and started at time 0, stopped at
  time 1, and the \<^verbatim>\<open>ended\<close> event of the primary oscillator (node 3) delivered at 1.51.
\<close>

definition demo_run :: "error option \<times> world" where
  "demo_run =
     fire_ended 3
       (at_time 1.51 1.51 (snd (stop (at_time 1 1 (after_start demo_ctx 440 0.8 1)))))"

section \<open>The graph that start() builds\<close>

text \<open>
  The nodes as \<^verbatim>\<open>start()\<close> leaves them, written out; \<open>start_Voice\<close> below proves that
  running the statements of \<^verbatim>\<open>start()\<close> gives exactly this world.
\<close>

definition osc_node :: "string \<Rightarrow> real \<Rightarrow> real \<Rightarrow> dest \<Rightarrow> handler option \<Rightarrow> audio_node" where
  "osc_node ty v t0 d h =
     \<lparr>kind = Oscillator, ntype = ty,
      params = [''frequency'' \<mapsto> \<lparr>pvalue = 440, events = [SetValue v t0]\<rparr>,
                ''detune'' \<mapsto> mk_param 0],
      outs = [d], started = Some (max 0 t0), stopped = None, onended = h\<rparr>"

definition modulator_node :: "real \<Rightarrow> real \<Rightarrow> dest \<Rightarrow> audio_node" where
  "modulator_node v t0 d =
     \<lparr>kind = Oscillator, ntype = ''sine'',
      params = [''frequency'' \<mapsto> \<lparr>pvalue = v, events = [SetValue v t0]\<rparr>,
                ''detune'' \<mapsto> mk_param 0],
      outs = [d], started = Some (max 0 t0), stopped = None, onended = None\<rparr>"

definition gain_node :: "audio_param \<Rightarrow> dest \<Rightarrow> audio_node" where
  "gain_node p d =
     \<lparr>kind = Gain, ntype = [], params = [''gain'' \<mapsto> p],
      outs = [d], started = None, stopped = None, onended = None\<rparr>"

definition envelope :: "real \<Rightarrow> real \<Rightarrow> audio_param" where
  "envelope m t0 =
     \<lparr>pvalue = 0,
      events = [SetValue 0 t0, LinearRamp m (t0 + 0.02),
                LinearRamp (0.5 * m) (t0 + 0.02 + 0.01)]\<rparr>"

definition lowpass_node :: "real \<Rightarrow> dest \<Rightarrow> audio_node" where
  "lowpass_node f d =
     \<lparr>kind = BiquadFilter, ntype = ''lowpass'',
      params = [''frequency'' \<mapsto> mk_param (f + 2000), ''detune'' \<mapsto> mk_param 0,
                ''Q'' \<mapsto> mk_param 1, ''gain'' \<mapsto> mk_param 0],
      outs = [d], started = None, stopped = None, onended = None\<rparr>"

definition running :: "audio_ctx \<Rightarrow> real \<Rightarrow> real \<Rightarrow> node_id \<Rightarrow> world" where
  "running c f m out =
     (let n = next_id c; t0 = currentTime c in
      \<lparr>audio = c
         \<lparr>nodes := (nodes c)
            (n \<mapsto> osc_node ''sine'' f t0 (ToNode (n + 5)) (Some VoiceDispose),
             n + 1 \<mapsto> osc_node ''sawtooth'' (f * 2) t0 (ToNode (n + 2)) None,
             n + 2 \<mapsto> gain_node (mk_param 0.5) (ToNode (n + 5)),
             n + 3 \<mapsto> osc_node ''triangle'' (f / 2) t0 (ToNode (n + 4)) None,
             n + 4 \<mapsto> gain_node (mk_param 1) (ToNode (n + 5)),
             n + 5 \<mapsto> gain_node (mk_param 0) (ToNode (n + 7)),
             n + 6 \<mapsto> modulator_node (f / 128) t0 (ToParam (n + 5) ''gain''),
             n + 7 \<mapsto> gain_node (envelope m t0) (ToNode (n + 8)),
             n + 8 \<mapsto> lowpass_node f (ToNode out)),
          next_id := n + 9\<rparr>,
       self =
         \<lparr>frequency = f, maxAmp = m, output_node = out,
          attack = 0.02, decay = 0.01, sustain = 0.5, release = 0.5,
          osc = Ref n, osc2 = Ref (n + 1), osc2scale = Ref (n + 2), osc3 = Ref (n + 3),
          osc3scale = Ref (n + 4), ringModGain = Ref (n + 5), ringModModulator = Ref (n + 6),
          ampEnv = Ref (n + 7), lpFilter = Ref (n + 8)\<rparr>\<rparr>)"

section \<open>Running start()\<close>

lemmas stmt_defs = create_def on_node_def on_param_def connect_def connect_param_def
  disconnect_def osc_start_def osc_stop_def assign_def add_out_def

lemmas host_defs = OscillatorNode_def GainNode_def BiquadFilterNode_def mk_param_def
  opt_num_def opt_str_def setValueAtTime_def set_value_def linearRampToValueAtTime_def

lemmas node_defs = osc_node_def modulator_node_def gain_node_def envelope_def lowpass_node_def

lemmas obs_defs = node_of_def outs_of_def stop_time_of_def param_of_def value_of_def
  events_of_def value_at_def

lemma start_Voice: "start (snd (Voice c f m out)) = (None, running c f m out)"
  unfolding start_def Voice_def running_def node_defs
  by (simp add: Let_def stmt_defs host_defs) (simp add: fun_eq_iff audio_ctx.equality)

lemma running_nodes:
  "nodes (audio (running c f m out)) (next_id c) =
     Some (osc_node ''sine'' f (currentTime c) (ToNode (next_id c + 5)) (Some VoiceDispose))"
  "nodes (audio (running c f m out)) (Suc (next_id c)) =
     Some (osc_node ''sawtooth'' (f * 2) (currentTime c) (ToNode (next_id c + 2)) None)"
  "nodes (audio (running c f m out)) (Suc (Suc (next_id c))) =
     Some (gain_node (mk_param 0.5) (ToNode (next_id c + 5)))"
  "nodes (audio (running c f m out)) (next_id c + 3) =
     Some (osc_node ''triangle'' (f / 2) (currentTime c) (ToNode (next_id c + 4)) None)"
  "nodes (audio (running c f m out)) (next_id c + 4) =
     Some (gain_node (mk_param 1) (ToNode (next_id c + 5)))"
  "nodes (audio (running c f m out)) (next_id c + 5) =
     Some (gain_node (mk_param 0) (ToNode (next_id c + 7)))"
  "nodes (audio (running c f m out)) (next_id c + 6) =
     Some (modulator_node (f / 128) (currentTime c) (ToParam (next_id c + 5) ''gain''))"
  "nodes (audio (running c f m out)) (next_id c + 7) =
     Some (gain_node (envelope m (currentTime c)) (ToNode (next_id c + 8)))"
  "nodes (audio (running c f m out)) (next_id c + 8) = Some (lowpass_node f (ToNode out))"
  by (simp_all add: running_def Let_def)

lemma running_old: "i < next_id c \<Longrightarrow> nodes (audio (running c f m out)) i = nodes c i"
  by (simp add: running_def Let_def)

lemma running_self:
  "self (running c f m out) =
     \<lparr>frequency = f, maxAmp = m, output_node = out,
      attack = 0.02, decay = 0.01, sustain = 0.5, release = 0.5,
      osc = Ref (next_id c), osc2 = Ref (next_id c + 1), osc2scale = Ref (next_id c + 2),
      osc3 = Ref (next_id c + 3), osc3scale = Ref (next_id c + 4),
      ringModGain = Ref (next_id c + 5), ringModModulator = Ref (next_id c + 6),
      ampEnv = Ref (next_id c + 7), lpFilter = Ref (next_id c + 8)\<rparr>"
  by (simp add: running_def Let_def)

lemma running_ctx:
  "currentTime (audio (running c f m out)) = currentTime c"
  "next_id (audio (running c f m out)) = next_id c + 9"
  by (simp_all add: running_def Let_def)

lemmas running_simps = running_nodes running_self running_ctx

lemma demo_time: "currentTime demo_ctx = 0"
  by (simp add: demo_ctx_def)

section \<open>The constructor\<close>

text \<open>
  C8. For every context, frequency, amplitude and output, in range or not, the
  constructor raises no error, stores the three parameters as given, sets the four
  envelope constants, holds no node, and returns the host state it was given: no node
  is created and no connection or schedule changes.
\<close>

theorem Voice_stores_parameters:
  "fst (Voice c f m out) = None \<and>
   audio (snd (Voice c f m out)) = c \<and>
   frequency (self (snd (Voice c f m out))) = f \<and>
   maxAmp (self (snd (Voice c f m out))) = m \<and>
   output_node (self (snd (Voice c f m out))) = out \<and>
   map (\<lambda>k. k (self (snd (Voice c f m out)))) [attack, decay, sustain, release] =
     [0.02, 0.01, 0.5, 0.5] \<and>
   map (\<lambda>fld. fld (self (snd (Voice c f m out))))
     [osc, osc2, osc2scale, osc3, osc3scale, ringModGain, ringModModulator, ampEnv, lpFilter] =
     replicate 9 Undefined"
  by (simp add: Voice_def numeral_eq_Suc)

section \<open>stop() before start()\<close>

text \<open>
  C9. On a voice that was constructed and never started, in whatever state the host is
  by then, the statement of \<^verbatim>\<open>stop()\<close> that reaches for \<^verbatim>\<open>this.ampEnv.gain\<close> throws a
  TypeError, so \<^verbatim>\<open>stop()\<close> throws a TypeError and leaves the host and the voice exactly
  as they were: nothing is cancelled, ramped or stopped.
\<close>

theorem stop_before_start_throws:
  "on_node ampEnv g ((snd (Voice c f m out))\<lparr>audio := c'\<rparr>) = Inl TypeError \<and>
   stop ((snd (Voice c f m out))\<lparr>audio := c'\<rparr>) =
     (Some TypeError, (snd (Voice c f m out))\<lparr>audio := c'\<rparr>)"
  by (simp add: stop_def Voice_def on_node_def)

section \<open>What start() configures\<close>

text \<open>
  C3. After \<^verbatim>\<open>start()\<close> the filter is a lowpass with cutoff \<open>f + 2000\<close>, but its Q is the
  default 1, not 2: the options object spells the member \<^verbatim>\<open>q\<close>, and the constructor
  reads \<^verbatim>\<open>Q\<close>.
\<close>

theorem start_lpFilter_config:
  "map_option kind (node_of (after_start c f m out) lpFilter) = Some BiquadFilter \<and>
   map_option ntype (node_of (after_start c f m out) lpFilter) = Some ''lowpass'' \<and>
   param_of (after_start c f m out) lpFilter ''frequency'' = Some (mk_param (f + 2000)) \<and>
   param_of (after_start c f m out) lpFilter ''Q'' = Some (mk_param 1) \<and>
   value_of (after_start c 440 m out) lpFilter ''frequency'' = Some 2440 \<and>
   value_of (after_start c 440 m out) lpFilter ''Q'' = Some 1 \<and>
   value_of (after_start c 440 m out) lpFilter ''Q'' \<noteq> Some 2"
  by (simp add: start_Voice obs_defs running_simps lowpass_node_def mk_param_def)

text \<open>
  C7. After \<^verbatim>\<open>start()\<close> at clock time \<open>t0\<close> the primary oscillator is a sine, the
  harmonic a sawtooth and the subharmonic a triangle, and at every time \<open>t\<close> from \<open>t0\<close>
  on their frequency parameters are \<open>f\<close>, \<open>2 f\<close> and \<open>f / 2\<close>, and the modulator's
  is \<open>f / 128\<close>: on the timeline, and in what \<^verbatim>\<open>frequency.value\<close> reads, whatever the
  clock shows, once the host has rendered for the time \<open>t\<close>.
\<close>

theorem start_oscillator_frequencies:
  assumes "currentTime c \<le> t"
  shows "map_option ntype (node_of (after_start c f m out) osc) = Some ''sine'' \<and>
         map_option ntype (node_of (after_start c f m out) osc2) = Some ''sawtooth'' \<and>
         map_option ntype (node_of (after_start c f m out) osc3) = Some ''triangle'' \<and>
         value_at (after_start c f m out) osc ''frequency'' t = Some f \<and>
         value_at (after_start c f m out) osc2 ''frequency'' t = Some (2 * f) \<and>
         value_at (after_start c f m out) osc3 ''frequency'' t = Some (0.5 * f) \<and>
         value_at (after_start c f m out) ringModModulator ''frequency'' t = Some (f / 128) \<and>
         value_of (at_time t u (after_start c f m out)) osc ''frequency'' = Some f \<and>
         value_of (at_time t u (after_start c f m out)) osc2 ''frequency'' = Some (2 * f) \<and>
         value_of (at_time t u (after_start c f m out)) osc3 ''frequency'' = Some (0.5 * f) \<and>
         value_of (at_time t u (after_start c f m out)) ringModModulator ''frequency'' =
           Some (f / 128)"
  using assms
  by (simp add: start_Voice obs_defs at_time_def advance_def running_simps osc_node_def
      modulator_node_def param_at_def)

theorem start_oscillator_frequencies_witness:
  "currentTime demo_ctx \<le> 0 \<and>
   value_at (after_start demo_ctx 440 0.8 1) osc ''frequency'' 0 = Some 440 \<and>
   value_at (after_start demo_ctx 440 0.8 1) osc2 ''frequency'' 0 = Some 880 \<and>
   value_at (after_start demo_ctx 440 0.8 1) osc3 ''frequency'' 0 = Some 220 \<and>
   value_at (after_start demo_ctx 256 0.8 1) ringModModulator ''frequency'' 0 = Some 2 \<and>
   value_of (at_time 0 0.005 (after_start demo_ctx 256 0.8 1)) ringModModulator ''frequency'' =
     Some 2"
proof -
  have h: "currentTime demo_ctx \<le> 0" by (simp add: demo_ctx_def)
  show ?thesis
    using h start_oscillator_frequencies [OF h, of 440 "0.8" 1 "0.005"]
      start_oscillator_frequencies [OF h, of 256 "0.8" 1 "0.005"]
    by simp
qed

text \<open>
  C4. After \<^verbatim>\<open>start()\<close> at clock time \<open>t0\<close> with amplitude \<open>m\<close>, the envelope gain is 0
  at \<open>t0\<close>, \<open>m\<close> at \<open>t0 + 0.02\<close> and \<open>m / 2\<close> at \<open>t0 + 0.03\<close> and at every later time
  \<open>t\<close>, where it is also what the gain's \<^verbatim>\<open>value\<close> reads, whatever the clock shows,
  once the host has rendered for the time \<open>t\<close>.
\<close>

theorem start_envelope_shape:
  assumes "currentTime c + 0.03 \<le> t"
  shows "value_at (after_start c f m out) ampEnv ''gain'' (currentTime c) = Some 0 \<and>
         value_at (after_start c f m out) ampEnv ''gain'' (currentTime c + 0.02) = Some m \<and>
         value_at (after_start c f m out) ampEnv ''gain'' (currentTime c + 0.03) = Some (0.5 * m) \<and>
         value_at (after_start c f m out) ampEnv ''gain'' t = Some (0.5 * m) \<and>
         value_of (at_time t u (after_start c f m out)) ampEnv ''gain'' = Some (0.5 * m)"
  using assms
  by (simp add: start_Voice obs_defs at_time_def advance_def running_simps gain_node_def
      envelope_def param_at_def)

theorem start_envelope_shape_witness:
  "currentTime demo_ctx + 0.03 \<le> 1 \<and>
   value_at (after_start demo_ctx 440 0.8 1) ampEnv ''gain'' 0 = Some 0 \<and>
   value_at (after_start demo_ctx 440 0.8 1) ampEnv ''gain'' 0.02 = Some 0.8 \<and>
   value_at (after_start demo_ctx 440 0.8 1) ampEnv ''gain'' 0.03 = Some 0.4 \<and>
   value_at (after_start demo_ctx 440 0.8 1) ampEnv ''gain'' 1 = Some 0.4 \<and>
   value_of (at_time 1 1.002 (after_start demo_ctx 440 0.8 1)) ampEnv ''gain'' = Some 0.4"
proof -
  have h: "currentTime demo_ctx + 0.03 \<le> 1" by (simp add: demo_ctx_def)
  have t0: "currentTime demo_ctx = 0" by (simp add: demo_ctx_def)
  show ?thesis
    using h start_envelope_shape [OF h, of 440 "0.8" 1 "1.002"]
    by (simp add: t0)
qed

section \<open>stop()\<close>













section \<open>The signal graph\<close>

lemma running_edges:
  "connects_to (audio (running c f m out)) d (next_id c) = (d = ToNode (next_id c + 5))"
  "connects_to (audio (running c f m out)) d (Suc (next_id c)) = (d = ToNode (next_id c + 2))"
  "connects_to (audio (running c f m out)) d (Suc (Suc (next_id c))) = (d = ToNode (next_id c + 5))"
  "connects_to (audio (running c f m out)) d (next_id c + 3) = (d = ToNode (next_id c + 4))"
  "connects_to (audio (running c f m out)) d (next_id c + 4) = (d = ToNode (next_id c + 5))"
  "connects_to (audio (running c f m out)) d (next_id c + 5) = (d = ToNode (next_id c + 7))"
  "connects_to (audio (running c f m out)) d (next_id c + 6) = (d = ToParam (next_id c + 5) ''gain'')"
  "connects_to (audio (running c f m out)) d (next_id c + 7) = (d = ToNode (next_id c + 8))"
  "connects_to (audio (running c f m out)) d (next_id c + 8) = (d = ToNode out)"
  by (auto simp: connects_to_def running_nodes node_defs)







section \<open>Ring modulation\<close>

lemma upt_nine:
  "[0..<n + 9] = [0..<n] @ [n, Suc n, Suc (Suc n), n + 3, n + 4, n + 5, n + 6, n + 7, n + 8]"
proof -
  have "[0..<n + 9] = [0..<n] @ [n..<n + 9]"
    by (rule upt_add_eq_append) simp
  moreover have "[n..<n + 9] = [n, Suc n, Suc (Suc n), n + 3, n + 4, n + 5, n + 6, n + 7, n + 8]"
    by (simp add: numeral_eq_Suc)
  ultimately show ?thesis by simp
qed

lemma sum_list_zero: "(\<And>x. x \<in> set xs \<Longrightarrow> g x = (0::real)) \<Longrightarrow> sum_list (map g xs) = 0"
  by (induction xs) auto

lemma old_not_connected:
  assumes "wf_ctx c" and "next_id c \<le> dest_id d" and "i < next_id c"
  shows "\<not> connects_to (audio (running c f m out)) d i"
proof -
  from assms(1,3) have "case nodes c i of None \<Rightarrow> True
      | Some nd \<Rightarrow> list_all (\<lambda>d. dest_id d < next_id c) (outs nd)"
    by (simp add: wf_ctx_def list_all_iff)
  with assms(2,3) show ?thesis
    by (auto simp: connects_to_def running_old list_all_iff split: option.splits)
qed

lemma inputs_sum_running:
  assumes "wf_ctx c" and "next_id c \<le> dest_id d"
  shows "inputs_sum (audio (running c f m out)) d sig =
           sum_list (map (\<lambda>i. if connects_to (audio (running c f m out)) d i then sig i else 0)
             [next_id c, Suc (next_id c), Suc (Suc (next_id c)), next_id c + 3, next_id c + 4,
              next_id c + 5, next_id c + 6, next_id c + 7, next_id c + 8])"
proof -
  have "sum_list (map (\<lambda>i. if connects_to (audio (running c f m out)) d i then sig i else 0)
          [0..<next_id c]) = 0"
    by (rule sum_list_zero) (simp add: old_not_connected[OF assms])
  then show ?thesis
    by (simp add: inputs_sum_def running_ctx upt_nine)
qed


lemma running_inputs:
  assumes "wf_ctx c" and "out < next_id c"
  shows "inputs_sum (audio (running c f m out)) (ToNode (next_id c + 5)) sig =
           sig (next_id c) + sig (next_id c + 2) + sig (next_id c + 4)"
    and "inputs_sum (audio (running c f m out)) (ToNode (Suc (Suc (next_id c)))) sig =
           sig (next_id c + 1)"
    and "inputs_sum (audio (running c f m out)) (ToNode (next_id c + 4)) sig = sig (next_id c + 3)"
    and "inputs_sum (audio (running c f m out)) (ToParam (next_id c + 5) ''gain'') sig =
           sig (next_id c + 6)"
    and "inputs_sum (audio (running c f m out)) (ToParam (Suc (Suc (next_id c))) ''gain'') sig = 0"
    and "inputs_sum (audio (running c f m out)) (ToParam (next_id c + 4) ''gain'') sig = 0"
  using assms by (simp_all add: inputs_sum_running running_edges)

lemma render_oscillators:
  "render (audio (running c f m out)) wave filt (Suc d) (next_id c) t =
     (if max 0 (currentTime c) \<le> t then wave (next_id c) t else 0)"
  "render (audio (running c f m out)) wave filt (Suc d) (Suc (next_id c)) t =
     (if max 0 (currentTime c) \<le> t then wave (next_id c + 1) t else 0)"
  "render (audio (running c f m out)) wave filt (Suc d) (next_id c + 3) t =
     (if max 0 (currentTime c) \<le> t then wave (next_id c + 3) t else 0)"
  "render (audio (running c f m out)) wave filt (Suc d) (next_id c + 6) t =
     (if max 0 (currentTime c) \<le> t then wave (next_id c + 6) t else 0)"
  by (simp_all add: running_nodes osc_node_def modulator_node_def playing_def)

lemma render_gains:
  assumes "wf_ctx c" and "out < next_id c"
  shows "render (audio (running c f m out)) wave filt (Suc d) (Suc (Suc (next_id c))) t =
           render (audio (running c f m out)) wave filt d (next_id c + 1) t * 0.5"
    and "render (audio (running c f m out)) wave filt (Suc d) (next_id c + 4) t =
           render (audio (running c f m out)) wave filt d (next_id c + 3) t * 1"
    and "render (audio (running c f m out)) wave filt (Suc d) (next_id c + 5) t =
           (render (audio (running c f m out)) wave filt d (next_id c) t +
            render (audio (running c f m out)) wave filt d (next_id c + 2) t +
            render (audio (running c f m out)) wave filt d (next_id c + 4) t) *
           (0 + render (audio (running c f m out)) wave filt d (next_id c + 6) t)"
  using assms
  by (simp_all add: running_nodes gain_node_def mk_param_def param_at_def running_inputs)

text \<open>
  C10. \<^verbatim>\<open>start()\<close> gives the ring-mod gain stage the gain 0 with an empty timeline and
  connects the modulator to that gain parameter. On a well-formed host where the output
  exists, the signal leaving the ring-mod stage is then, at every instant, the sum of
  the primary, 0.5 times the harmonic and 1.0 times the subharmonic, multiplied by the
  modulator's output, with no offset.
\<close>

theorem ring_modulation:
  assumes "wf_ctx c" and "out < next_id c"
  shows "param_of (after_start c f m out) ringModGain ''gain'' = Some (mk_param 0) \<and>
         outs_of (after_start c f m out) ringModModulator = Some [ToParam (next_id c + 5) ''gain''] \<and>
         ringModGain (self (after_start c f m out)) = Ref (next_id c + 5) \<and>
         signal_of (after_start c f m out) wave filt (Suc (Suc (Suc d))) ringModGain t =
           (signal_of (after_start c f m out) wave filt (Suc d1) osc t +
            0.5 * signal_of (after_start c f m out) wave filt (Suc d2) osc2 t +
            1.0 * signal_of (after_start c f m out) wave filt (Suc d3) osc3 t) *
           signal_of (after_start c f m out) wave filt (Suc d4) ringModModulator t"
proof -
  let ?W = "audio (running c f m out)"
  have ring: "render ?W wave filt (Suc (Suc (Suc d))) (next_id c + 5) t =
          (render ?W wave filt (Suc d1) (next_id c) t +
           0.5 * render ?W wave filt (Suc d2) (next_id c + 1) t +
           1.0 * render ?W wave filt (Suc d3) (next_id c + 3) t) *
          render ?W wave filt (Suc d4) (next_id c + 6) t"
    using render_gains[OF assms, of f m wave filt]
    by (simp add: render_oscillators del: render.simps)
  show ?thesis
    using ring
    by (simp add: start_Voice obs_defs signal_of_def running_simps gain_node_def
        modulator_node_def del: render.simps)
qed

theorem ring_modulation_witness:
  "wf_ctx demo_ctx \<and> (1::nat) < next_id demo_ctx \<and>
   signal_of (after_start demo_ctx 440 0.8 1) (\<lambda>n t. real n) (\<lambda>n s. s) 3 ringModGain 1 = 99"
proof -
  have h1: "wf_ctx demo_ctx"
    by (simp add: wf_ctx_def demo_ctx_def host_defs upt_conv_Cons numeral_eq_Suc)
  have h2: "(1::nat) < next_id demo_ctx" by (simp add: demo_ctx_def)
  have n: "next_id demo_ctx = 3" by (simp add: demo_ctx_def)
  have o: "signal_of (after_start demo_ctx 440 0.8 1) (\<lambda>n t. real n) (\<lambda>n s. s) (Suc 0) osc 1 = 3"
    "signal_of (after_start demo_ctx 440 0.8 1) (\<lambda>n t. real n) (\<lambda>n s. s) (Suc 0) osc2 1 = 4"
    "signal_of (after_start demo_ctx 440 0.8 1) (\<lambda>n t. real n) (\<lambda>n s. s) (Suc 0) osc3 1 = 6"
    "signal_of (after_start demo_ctx 440 0.8 1) (\<lambda>n t. real n) (\<lambda>n s. s) (Suc 0)
       ringModModulator 1 = 9"
    using render_oscillators [of demo_ctx 440 "0.8" 1 "\<lambda>n t. real n" "\<lambda>n s. s" 0 1]
    by (simp_all add: start_Voice signal_of_def running_self demo_time n del: render.simps)
  show ?thesis
    using h1 h2 o
      ring_modulation [OF h1 h2, of 440 "0.8" "\<lambda>n t. real n" "\<lambda>n s. s" 0 1 0 0 0 0]
    by (simp add: numeral_3_eq_3 del: render.simps)
qed

section \<open>dispose()\<close>

lemma cut_dom [simp]: "(nodes (cut n c) x = None) = (nodes c x = None)"
  by (simp add: cut_def)

lemma cut_outs:
  "map_option outs (nodes (cut n c) x) =
     (if x = n then map_option (\<lambda>_. []) (nodes c x) else map_option outs (nodes c x))"
  by (simp add: cut_def option.map_comp comp_def)

lemma cut_keeps_empty:
  "map_option outs (nodes c x) = Some [] \<Longrightarrow> map_option outs (nodes (cut n c) x) = Some []"
  by (auto simp: cut_outs)

lemma cut_empties:
  "nodes c n \<noteq> None \<Longrightarrow> map_option outs (nodes (cut n c) n) = Some []"
  by (auto simp: cut_outs)

lemma disconnect_refers:
  assumes "fld (self w) = Ref n" and "nodes (audio w) n \<noteq> None"
  shows "disconnect fld w = Inr (w\<lparr>audio := cut n (audio w)\<rparr>)"
  using assms by (auto simp: disconnect_def on_node_def cut_def)

lemma cuts_dom [simp]: "(nodes (foldr cut ns c) x = None) = (nodes c x = None)"
  by (induction ns) simp_all

lemma cuts_empty:
  "x \<in> set ns \<Longrightarrow> nodes c x \<noteq> None \<Longrightarrow> map_option outs (nodes (foldr cut ns c) x) = Some []"
proof (induction ns)
  case Nil
  then show ?case by simp
next
  case (Cons n ns)
  show ?case
  proof (cases "x = n")
    case True
    with Cons.prems show ?thesis by (simp add: cut_empties)
  next
    case False
    with Cons show ?thesis by (simp add: cut_keeps_empty)
  qed
qed

lemma dispose_once:
  assumes "holds_nodes w"
  shows "\<exists>ns. map (\<lambda>fld. fld (self w)) disposed_fields = map Ref ns \<and>
           dispose w =
             (None,
              \<lparr>audio = foldr cut (rev ns) (audio w),
               self = (self w)\<lparr>osc := Null, osc2 := Null, osc3 := Null, osc2scale := Null,
                               osc3scale := Null, ringModGain := Null,
                               ringModModulator := Null, ampEnv := Null\<rparr>\<rparr>)"
proof -
  from assms obtain a b c d e f g h where
    refs: "osc (self w) = Ref a" "osc2 (self w) = Ref b" "osc3 (self w) = Ref c"
      "osc2scale (self w) = Ref d" "osc3scale (self w) = Ref e" "ringModGain (self w) = Ref f"
      "ringModModulator (self w) = Ref g" "ampEnv (self w) = Ref h" and
    alive: "nodes (audio w) a \<noteq> None" "nodes (audio w) b \<noteq> None" "nodes (audio w) c \<noteq> None"
      "nodes (audio w) d \<noteq> None" "nodes (audio w) e \<noteq> None" "nodes (audio w) f \<noteq> None"
      "nodes (audio w) g \<noteq> None" "nodes (audio w) h \<noteq> None"
    by (auto simp: holds_nodes_def disposed_fields_def refers_def split: jsref.splits)
  have "dispose w =
          (None,
           \<lparr>audio = foldr cut (rev [a, b, c, d, e, f, g, h]) (audio w),
            self = (self w)\<lparr>osc := Null, osc2 := Null, osc3 := Null, osc2scale := Null,
                            osc3scale := Null, ringModGain := Null,
                            ringModModulator := Null, ampEnv := Null\<rparr>\<rparr>)"
    using refs alive by (simp add: dispose_def disconnect_refers assign_def)
  moreover have "map (\<lambda>fld. fld (self w)) disposed_fields = map Ref [a, b, c, d, e, f, g, h]"
    using refs by (simp add: disposed_fields_def)
  ultimately show ?thesis by blast
qed

lemma dispose_again:
  assumes "osc (self w) = Null"
  shows "dispose w = (Some TypeError, w)"
  using assms by (simp add: dispose_def disconnect_def on_node_def)


lemma refers_at_time: "refers (at_time r t w) = refers w"
  by (rule ext) (simp add: refers_def at_time_def advance_def split: jsref.splits)

lemma holds_nodes_at_time: "holds_nodes (at_time r t w) = holds_nodes w"
  by (simp add: holds_nodes_def refers_at_time)

lemma holds_nodes_running: "holds_nodes (running c f m out)"
  by (simp add: holds_nodes_def disposed_fields_def refers_def running_simps)

lemma holds_nodes_stop: "holds_nodes (snd (stop (at_time r t (running c f m out))))"
  by (simp add: holds_nodes_def disposed_fields_def refers_def stop_def Let_def stmt_defs
      at_time_def advance_def running_def node_defs)

lemma dispose_nulls_osc:
  assumes "holds_nodes w"
  shows "fst (dispose w) = None \<and> osc (self (snd (dispose w))) = Null"
  using dispose_once[OF assms] by auto

text \<open>
  C2, as stated, fails. On the demo host the first \<^verbatim>\<open>dispose()\<close> of a started voice
  succeeds, and the second one throws a TypeError.
\<close>

theorem dispose_twice_counterexample:
  "fst (dispose (after_start demo_ctx 440 0.8 1)) = None \<and>
   fst (dispose (snd (dispose (after_start demo_ctx 440 0.8 1)))) = Some TypeError"
proof -
  have h: "holds_nodes (after_start demo_ctx 440 0.8 1)"
    by (simp add: start_Voice holds_nodes_running)
  from dispose_nulls_osc[OF h] dispose_again[of "snd (dispose (after_start demo_ctx 440 0.8 1))"]
  show ?thesis by simp
qed

text \<open>
  C2, amended. On every voice whose eight fields named in \<^verbatim>\<open>dispose()\<close> refer to nodes
  (every started voice, at any later time and also after \<^verbatim>\<open>stop()\<close>: lemmas
  \<open>holds_nodes_running\<close>, \<open>holds_nodes_at_time\<close>, \<open>holds_nodes_stop\<close>), the first
  \<^verbatim>\<open>dispose()\<close> raises no error, nulls the eight fields and leaves each of the eight
  nodes without an outgoing connection; a second \<^verbatim>\<open>dispose()\<close> in succession throws a
  TypeError at its first statement and changes nothing.
\<close>

theorem dispose_twice:
  assumes "holds_nodes w"
  shows "fst (dispose w) = None \<and>
         map (\<lambda>fld. fld (self (snd (dispose w)))) disposed_fields = replicate 8 Null \<and>
         list_all (\<lambda>fld. ref_outs (audio (snd (dispose w))) (fld (self w)) = Some [])
           disposed_fields \<and>
         dispose (snd (dispose w)) = (Some TypeError, snd (dispose w))"
proof -
  from dispose_once[OF assms] obtain ns where
    refs: "map (\<lambda>fld. fld (self w)) disposed_fields = map Ref ns" and
    res: "dispose w =
             (None,
              \<lparr>audio = foldr cut (rev ns) (audio w),
               self = (self w)\<lparr>osc := Null, osc2 := Null, osc3 := Null, osc2scale := Null,
                               osc3scale := Null, ringModGain := Null,
                               ringModModulator := Null, ampEnv := Null\<rparr>\<rparr>)"
    by blast
  have "ref_outs (foldr cut (rev ns) (audio w)) (fld (self w)) = Some []"
    if fld: "fld \<in> set disposed_fields" for fld
  proof -
    from fld have "fld (self w) \<in> set (map (\<lambda>fld. fld (self w)) disposed_fields)" by simp
    with refs obtain n where n: "fld (self w) = Ref n" "n \<in> set ns" by auto
    from assms fld n have "nodes (audio w) n \<noteq> None"
      by (simp add: holds_nodes_def refers_def list_all_iff split: jsref.splits)
    with n show ?thesis by (simp add: ref_outs_def cuts_empty)
  qed
  then have empty: "list_all (\<lambda>fld. ref_outs (audio (snd (dispose w))) (fld (self w)) = Some [])
           disposed_fields"
    by (simp add: res list_all_iff)
  have again: "dispose (snd (dispose w)) = (Some TypeError, snd (dispose w))"
    by (rule dispose_again) (simp add: res)
  have nulls: "map (\<lambda>fld. fld (self (snd (dispose w)))) disposed_fields = replicate 8 Null"
    by (simp add: res disposed_fields_def numeral_eq_Suc)
  show ?thesis
    using empty again nulls by (simp add: res)
qed

theorem dispose_twice_witness:
  "holds_nodes (after_start demo_ctx 440 0.8 1) \<and>
   fst (dispose (after_start demo_ctx 440 0.8 1)) = None \<and>
   map (\<lambda>fld. fld (self (snd (dispose (after_start demo_ctx 440 0.8 1))))) disposed_fields =
     replicate 8 Null \<and>
   dispose (snd (dispose (after_start demo_ctx 440 0.8 1))) =
     (Some TypeError, snd (dispose (after_start demo_ctx 440 0.8 1)))"
proof -
  have h: "holds_nodes (after_start demo_ctx 440 0.8 1)"
    by (simp add: start_Voice holds_nodes_running)
  from h dispose_twice [OF h] show ?thesis by simp
qed

text \<open>
  C1 says that after a voice was started and stopped and the primary oscillator's
  \<^verbatim>\<open>ended\<close> event has run \<^verbatim>\<open>dispose()\<close>, the voice holds no node, every node is
  disconnected and the sink has as many incoming connections as before \<^verbatim>\<open>start()\<close>.
  The code does not do that. On the demo host, with one connection into the bus before
  \<^verbatim>\<open>start()\<close>: the voice is started, stopped at time 1, and at 1.51 the \<^verbatim>\<open>ended\<close> event
  runs \<^verbatim>\<open>dispose()\<close> without error. The eight fields that \<^verbatim>\<open>dispose()\<close> names are null,
  but \<^verbatim>\<open>this.lpFilter\<close> still refers to the filter, the filter is still connected to the
  bus, and the bus has two incoming connections, as it had right after \<^verbatim>\<open>start()\<close>.
\<close>

theorem dispose_leaves_lpFilter:
  "osc (self (after_start demo_ctx 440 0.8 1)) = Ref 3 \<and>
   stop_time_of (snd (stop (at_time 1 1 (after_start demo_ctx 440 0.8 1)))) osc = Some 1.51 \<and>
   fst demo_run = None \<and>
   map (\<lambda>fld. fld (self (snd demo_run))) disposed_fields = replicate 8 Null \<and>
   lpFilter (self (snd demo_run)) = Ref 11 \<and>
   outs_of (snd demo_run) lpFilter = Some [ToNode 1] \<and>
   incoming_count demo_ctx 1 = 1 \<and>
   incoming_count (audio (after_start demo_ctx 440 0.8 1)) 1 = 2 \<and>
   incoming_count (audio (snd demo_run)) 1 = 2"
  by (simp add: demo_run_def start_Voice fire_ended_def at_time_def advance_def stop_def
      dispose_def Let_def stmt_defs running_def node_defs demo_ctx_def obs_defs
      incoming_count_def connects_to_def disposed_fields_def host_defs upt_conv_Cons
      numeral_eq_Suc)

end
